theory Spec2Isabelle
  imports Main
begin

section \<open>Data model of \<open>cogs/armor_events.py\<close>\<close>

text \<open>
  A \<open>discord.Member\<close> is compared by its id, so an identity is the id itself.
  Crew slots hold Python dicts, which the edit and recruit views keep references to and
  mutate in place; the dicts therefore live in an explicit store (\<open>dicts\<close>, indexed by
  address) and the slot arrays hold addresses.
\<close>

type_synonym user = nat
type_synonym ref = nat

datatype team = TeamA | TeamB

record crew =
  commander :: "user option"
  crew_name :: string
  gunner :: "user option"
  driver :: "user option"
  persistent_crew_id :: "nat option"

text \<open>The fields of \<open>EventSignupView\<close> that the handlers read and write. \<open>message\<close>
  says whether \<open>self.message\<close> is set, and \<open>children_disabled\<close> stands for
  \<open>item.disabled\<close> of the items of the view.\<close>

record signup_view =
  commander_a :: "user option"
  commander_b :: "user option"
  crews_a :: "ref option list"
  crews_b :: "ref option list"
  recruits :: "user list"
  dicts :: "ref \<Rightarrow> crew"
  next_ref :: ref
  message :: bool
  children_disabled :: bool

text \<open>A row of the external crew store, as \<open>join_with_crew\<close> reads it.\<close>

record persistent_crew =
  pc_id :: nat
  pc_crew_name :: string
  commander_id :: nat
  gunner_id :: "nat option"
  driver_id :: "nat option"

text \<open>The secondary views; each keeps what its \<open>__init__\<close> stores.\<close>

record crew_select_view =
  csv_team :: team
  csv_commander :: user
  csv_gunner :: "user option"

record crew_name_modal =
  cnm_parent :: crew_select_view
  cnm_driver :: user

record recruit_selection_view =
  rsv_commander :: user
  rsv_crew :: "ref option"
  rsv_team :: "team option"
  rsv_slot_index :: "nat option"
  rsv_selected_recruit :: "user option"

record edit_crew_view =
  ecv_crew :: ref
  ecv_team :: team
  ecv_slot_index :: nat

text \<open>\<open>EditGunnerView\<close> and \<open>EditDriverView\<close> store their \<open>parent\<close> (the \<open>EditCrewView\<close>)
  and nothing else.\<close>

record edit_gunner_view =
  egv_parent :: edit_crew_view

record edit_driver_view =
  edv_parent :: edit_crew_view

text \<open>
  What a handler answers: one of the messages it sends (named after the failure it reports),
  a further view, or an exception that leaves the handler.
  \<^item> \<open>AlreadyRegistered\<close>: "Already registered!" and "User already registered!"
  \<^item> \<open>MemberAlreadyRegistered m\<close>: "\<open>m\<close> is already registered for this event!"
  \<^item> \<open>TeamFull\<close>: "Team is full!" and "... team is full!"
  \<^item> \<open>NotCommander\<close>: "Only crew commanders can recruit players." and
    "You must be a crew commander to edit your crew."
  \<^item> \<open>NoRecruits\<close>: "No recruits available to recruit."
  \<^item> \<open>RecruitNotFound\<close>: "Recruit not found!"
  \<^item> \<open>NotRegistered\<close>: "Not registered!"
  \<^item> \<open>Unauthorized\<close>: "Only admins can end events."
  \<^item> \<open>ErrorEndingEvent e\<close>: "Error ending event: \<open>e\<close>"
  \<^item> \<open>Done\<close>: any of the success messages.
\<close>

datatype py_exception = IndexError | ValueError | TypeError | AttributeError | OperationalError

datatype message =
    AlreadyRegistered
  | MemberAlreadyRegistered user
  | TeamFull
  | NotCommander
  | NoRecruits
  | RecruitNotFound
  | NotRegistered
  | Unauthorized
  | ErrorEndingEvent py_exception
  | Done

datatype 'v reply = Sends message | Shows 'v | Raises py_exception

section \<open>\<open>EventSignupView\<close>\<close>

text \<open>\<open>__init__\<close>: no message, both commanders unset, \<open>[None] * MAX_CREWS_PER_TEAM\<close> twice,
  no recruits. \<open>MAX_CREWS_PER_TEAM\<close> comes from \<open>utils.config\<close> and is a parameter here.\<close>

definition empty_crew :: crew where
  "empty_crew = \<lparr>commander = None, crew_name = [], gunner = None, driver = None,
     persistent_crew_id = None\<rparr>"

definition new_view :: "nat \<Rightarrow> signup_view" where
  "new_view max_crews =
     \<lparr>commander_a = None, commander_b = None,
      crews_a = replicate max_crews None, crews_b = replicate max_crews None,
      recruits = [], dicts = (\<lambda>_. empty_crew), next_ref = 0, message = False,
      children_disabled = False\<rparr>"

text \<open>\<open>schedule_event\<close> creates the view, sends it and stores the message in it
  (\<open>view.message = message\<close>) before any handler can run.\<close>

definition posted_view :: "nat \<Rightarrow> signup_view" where
  "posted_view max_crews = (new_view max_crews)\<lparr>message := True\<rparr>"

definition slot_list :: "team \<Rightarrow> signup_view \<Rightarrow> ref option list" where
  "slot_list t v = (if t = TeamA then crews_a v else crews_b v)"

definition set_slot :: "team \<Rightarrow> nat \<Rightarrow> ref option \<Rightarrow> signup_view \<Rightarrow> signup_view" where
  "set_slot t i x v =
     (if t = TeamA then v\<lparr>crews_a := (crews_a v)[i := x]\<rparr>
      else v\<lparr>crews_b := (crews_b v)[i := x]\<rparr>)"

text \<open>\<open>user in [crew["commander"], crew["gunner"], crew["driver"]]\<close>\<close>

definition crew_has :: "crew \<Rightarrow> user \<Rightarrow> bool" where
  "crew_has c u \<longleftrightarrow> Some u \<in> set [commander c, gunner c, driver c]"

text \<open>\<open>isinstance(crew, dict) and user in [...]\<close> for one entry of a slot array.\<close>

definition slot_has :: "(ref \<Rightarrow> crew) \<Rightarrow> user \<Rightarrow> ref option \<Rightarrow> bool" where
  "slot_has h u slot = (case slot of None \<Rightarrow> False | Some r \<Rightarrow> crew_has (h r) u)"

definition is_user_registered :: "signup_view \<Rightarrow> user \<Rightarrow> bool" where
  "is_user_registered v u =
     (if Some u \<in> set [commander_a v, commander_b v] then True
      else if list_ex (slot_has (dicts v) u) (crews_a v @ crews_b v) then True
      else u \<in> set (recruits v))"

text \<open>The \<open>enumerate\<close> loop of \<open>get_user_crew\<close> over one slot array, from index \<open>i\<close>.\<close>

fun find_commanded :: "(ref \<Rightarrow> crew) \<Rightarrow> user \<Rightarrow> ref option list \<Rightarrow> nat \<Rightarrow> (ref \<times> nat) option" where
  "find_commanded h u [] i = None"
| "find_commanded h u (slot # rest) i =
     (case slot of
        None \<Rightarrow> find_commanded h u rest (Suc i)
      | Some r \<Rightarrow> if commander (h r) = Some u then Some (r, i)
                  else find_commanded h u rest (Suc i))"

definition get_user_crew :: "signup_view \<Rightarrow> user \<Rightarrow> (ref \<times> team \<times> nat) option" where
  "get_user_crew v u =
     (case find_commanded (dicts v) u (crews_a v) 0 of
        Some (r, i) \<Rightarrow> Some (r, TeamA, i)
      | None \<Rightarrow>
          (case find_commanded (dicts v) u (crews_b v) 0 of
             Some (r, i) \<Rightarrow> Some (r, TeamB, i)
           | None \<Rightarrow> None))"

definition is_user_commander :: "signup_view \<Rightarrow> user \<Rightarrow> bool" where
  "is_user_commander v u = (get_user_crew v u \<noteq> None)"

section \<open>Rendering the roster\<close>

text \<open>
  \<open>format_crew\<close> (in \<open>build_embed\<close>) reads \<open>.display_name\<close> of the commander, of the gunner
  unless the gunner is the commander, and of the driver unless the driver is the
  commander; on \<open>None\<close> that raises \<open>AttributeError\<close>. The text it builds goes to the display
  and is not modelled: the result says whether, and with what, the call raises.
\<close>

definition format_crew :: "(ref \<Rightarrow> crew) \<Rightarrow> ref option \<Rightarrow> py_exception option" where
  "format_crew h slot =
     (case slot of
        None \<Rightarrow> None
      | Some r \<Rightarrow>
          if commander (h r) = None then Some AttributeError
          else if gunner (h r) \<noteq> commander (h r) \<and> gunner (h r) = None then Some AttributeError
          else if driver (h r) \<noteq> commander (h r) \<and> driver (h r) = None then Some AttributeError
          else None)"

text \<open>\<open>build_embed\<close> formats every entry of \<open>crews_a\<close>, then every entry of \<open>crews_b\<close>; the
  commanders are read under \<open>if self.commander_a\<close>, the recruits are members.\<close>

definition build_embed :: "signup_view \<Rightarrow> py_exception option" where
  "build_embed v =
     (if list_ex (\<lambda>slot. format_crew (dicts v) slot \<noteq> None) (crews_a v @ crews_b v)
      then Some AttributeError else None)"

definition update_embed :: "signup_view \<Rightarrow> py_exception option" where
  "update_embed v = (if message v then build_embed v else None)"

text \<open>The end of a handler that has changed the roster: \<open>await update_embed(interaction)\<close>,
  then the success message.\<close>

definition update_and_send :: "signup_view \<Rightarrow> unit reply \<times> signup_view" where
  "update_and_send v = (case update_embed v of Some e \<Rightarrow> (Raises e, v) | None \<Rightarrow> (Sends Done, v))"

section \<open>Handlers of the main view\<close>


text \<open>\<open>JoinCrewAButton.callback\<close> and \<open>JoinCrewBButton.callback\<close> differ in the team only.\<close>

definition JoinCrewButton_callback :: "team \<Rightarrow> signup_view \<Rightarrow> user \<Rightarrow> crew_select_view reply \<times> signup_view" where
  "JoinCrewButton_callback t v u =
     (if is_user_registered v u then (Sends AlreadyRegistered, v)
      else (Shows \<lparr>csv_team = t, csv_commander = u, csv_gunner = None\<rparr>, v))"

definition RecruitMeButton_callback :: "signup_view \<Rightarrow> user \<Rightarrow> unit reply \<times> signup_view" where
  "RecruitMeButton_callback v u =
     (if is_user_registered v u then (Sends AlreadyRegistered, v)
      else update_and_send (v\<lparr>recruits := recruits v @ [u]\<rparr>))"

definition RecruitPlayersButton_callback ::
    "signup_view \<Rightarrow> user \<Rightarrow> recruit_selection_view reply \<times> signup_view" where
  "RecruitPlayersButton_callback v u =
     (if \<not> is_user_commander v u then (Sends NotCommander, v)
      else if recruits v = [] then (Sends NoRecruits, v)
      else (Shows (case get_user_crew v u of
                     None \<Rightarrow> \<lparr>rsv_commander = u, rsv_crew = None, rsv_team = None,
                               rsv_slot_index = None, rsv_selected_recruit = None\<rparr>
                   | Some (r, t, i) \<Rightarrow> \<lparr>rsv_commander = u, rsv_crew = Some r, rsv_team = Some t,
                               rsv_slot_index = Some i, rsv_selected_recruit = None\<rparr>), v))"

definition EditCrewButton_callback :: "signup_view \<Rightarrow> user \<Rightarrow> edit_crew_view reply \<times> signup_view" where
  "EditCrewButton_callback v u =
     (case get_user_crew v u of
        None \<Rightarrow> (Sends NotCommander, v)
      | Some (r, t, i) \<Rightarrow> (Shows \<lparr>ecv_crew = r, ecv_team = t, ecv_slot_index = i\<rparr>, v))"

subsection \<open>\<open>LeaveEventButton.callback\<close>\<close>

text \<open>One \<open>if isinstance(view.crews_x[i], dict): ...\<close> block of the loop body; the state
  carries the flag \<open>removed\<close>.\<close>

definition release_if_member :: "user \<Rightarrow> team \<Rightarrow> nat \<Rightarrow> signup_view \<times> bool \<Rightarrow> signup_view \<times> bool" where
  "release_if_member u t i st =
     (case st of (v, removed) \<Rightarrow>
        if slot_has (dicts v) u (slot_list t v ! i) then (set_slot t i None v, True)
        else (v, removed))"

text \<open>\<open>for i in range(MAX_CREWS_PER_TEAM)\<close>, from index \<open>i\<close> with \<open>n\<close> rounds left. Reading
  past the end of a slot array raises \<open>IndexError\<close>, which ends the handler where it is.\<close>

fun leave_loop :: "user \<Rightarrow> nat \<Rightarrow> nat \<Rightarrow> signup_view \<times> bool \<Rightarrow> py_exception option \<times> signup_view \<times> bool" where
  "leave_loop u i 0 st = (None, st)"
| "leave_loop u i (Suc n) st =
     (if length (crews_a (fst st)) \<le> i then (Some IndexError, st)
      else let st1 = release_if_member u TeamA i st in
        if length (crews_b (fst st1)) \<le> i then (Some IndexError, st1)
        else leave_loop u (Suc i) n (release_if_member u TeamB i st1))"

definition LeaveEventButton_callback :: "nat \<Rightarrow> signup_view \<Rightarrow> user \<Rightarrow> unit reply \<times> signup_view" where
  "LeaveEventButton_callback max_crews v u =
     (let st0 = (if Some u = commander_a v then (v\<lparr>commander_a := None\<rparr>, True)
                 else if Some u = commander_b v then (v\<lparr>commander_b := None\<rparr>, True)
                 else (v, False))
      in case leave_loop u 0 max_crews st0 of
           (Some e, v1, removed) \<Rightarrow> (Raises e, v1)
         | (None, v1, removed) \<Rightarrow>
             (let st2 = (if u \<in> set (recruits v1)
                         then (v1\<lparr>recruits := remove1 u (recruits v1)\<rparr>, True)
                         else (v1, removed))
              in if snd st2 then update_and_send (fst st2) else (Sends NotRegistered, fst st2)))"

section \<open>Crew creation\<close>

definition GunnerSelect_callback ::
    "signup_view \<Rightarrow> crew_select_view \<Rightarrow> user \<Rightarrow> crew_select_view reply \<times> signup_view" where
  "GunnerSelect_callback v p g =
     (if is_user_registered v g then (Sends AlreadyRegistered, v)
      else (Shows (p\<lparr>csv_gunner := Some g\<rparr>), v))"

definition DriverSelect_callback ::
    "signup_view \<Rightarrow> crew_select_view \<Rightarrow> user \<Rightarrow> crew_name_modal reply \<times> signup_view" where
  "DriverSelect_callback v p d =
     (if is_user_registered v d then (Sends AlreadyRegistered, v)
      else (Shows \<lparr>cnm_parent = p, cnm_driver = d\<rparr>, v))"

text \<open>The scan \<open>for i in range(MAX_CREWS_PER_TEAM): if slot_list[i] is None\<close>, from index
  \<open>i\<close> with \<open>n\<close> rounds left.\<close>

datatype scan = Found nat | NoSlot | OutOfRange

fun first_empty :: "ref option list \<Rightarrow> nat \<Rightarrow> nat \<Rightarrow> scan" where
  "first_empty xs i 0 = NoSlot"
| "first_empty xs i (Suc n) =
     (if length xs \<le> i then OutOfRange
      else if xs ! i = None then Found i
      else first_empty xs (Suc i) n)"

text \<open>\<open>slot_list[i] = {...}\<close>: a new dict, stored at a new address, referenced from the slot.\<close>

definition store_crew :: "team \<Rightarrow> nat \<Rightarrow> crew \<Rightarrow> signup_view \<Rightarrow> signup_view" where
  "store_crew t i c v =
     set_slot t i (Some (next_ref v))
       (v\<lparr>dicts := (dicts v)(next_ref v := c), next_ref := Suc (next_ref v)\<rparr>)"

text \<open>\<open>CrewNameModal.on_submit\<close>; \<open>name\<close> is the value of \<open>crew_name\<close> of its first line.\<close>

definition CrewNameModal_on_submit ::
    "nat \<Rightarrow> signup_view \<Rightarrow> crew_name_modal \<Rightarrow> string \<Rightarrow> unit reply \<times> signup_view" where
  "CrewNameModal_on_submit max_crews v m name =
     (let t = csv_team (cnm_parent m) in
      case first_empty (slot_list t v) 0 max_crews of
        Found i \<Rightarrow>
          update_and_send
            (store_crew t i
               \<lparr>commander = Some (csv_commander (cnm_parent m)), crew_name = name,
                gunner = csv_gunner (cnm_parent m), driver = Some (cnm_driver m),
                persistent_crew_id = None\<rparr> v)
      | NoSlot \<Rightarrow> (Sends TeamFull, v)
      | OutOfRange \<Rightarrow> (Raises IndexError, v))"

section \<open>Joining with a persistent crew\<close>

text \<open>\<open>guild.get_member\<close>: the member with that id, or \<open>None\<close> when the guild has none.\<close>

definition get_member :: "user list \<Rightarrow> nat \<Rightarrow> user option" where
  "get_member guild i = (if i \<in> set guild then Some i else None)"

text \<open>\<open>guild.get_member(crew[k]) if crew[k] else commander\<close>: an id that is \<open>None\<close> or \<open>0\<close>
  is false.\<close>

definition member_or :: "user list \<Rightarrow> nat option \<Rightarrow> user option \<Rightarrow> user option" where
  "member_or guild k dflt =
     (case k of None \<Rightarrow> dflt | Some i \<Rightarrow> if i = 0 then dflt else get_member guild i)"

text \<open>The loop \<open>for member in [commander, gunner, driver]: if member and
  main_view.is_user_registered(member)\<close>: the first member it stops at.\<close>

fun first_registered :: "signup_view \<Rightarrow> user option list \<Rightarrow> user option" where
  "first_registered v [] = None"
| "first_registered v (m # ms) =
     (case m of
        None \<Rightarrow> first_registered v ms
      | Some u \<Rightarrow> if is_user_registered v u then Some u else first_registered v ms)"

text \<open>\<open>join_with_crew\<close> has the same body in \<open>JoinAlliesWithCrewButton\<close> and in
  \<open>JoinAxisWithCrewButton\<close>; their callbacks call it with "A" and with "B".\<close>

definition join_with_crew ::
    "nat \<Rightarrow> user list \<Rightarrow> signup_view \<Rightarrow> persistent_crew \<Rightarrow> team \<Rightarrow> unit reply \<times> signup_view" where
  "join_with_crew max_crews guild v crew t =
     (let commander = get_member guild (commander_id crew);
          gunner = member_or guild (gunner_id crew) commander;
          driver = member_or guild (driver_id crew) commander
      in case first_registered v [commander, gunner, driver] of
           Some m \<Rightarrow> (Sends (MemberAlreadyRegistered m), v)
         | None \<Rightarrow>
             (case first_empty (slot_list t v) 0 max_crews of
                Found i \<Rightarrow>
                  update_and_send
                    (store_crew t i
                       \<lparr>commander = commander, crew_name = pc_crew_name crew,
                        gunner = gunner, driver = driver,
                        persistent_crew_id = Some (pc_id crew)\<rparr> v)
              | NoSlot \<Rightarrow> (Sends TeamFull, v)
              | OutOfRange \<Rightarrow> (Raises IndexError, v)))"

definition JoinAlliesWithCrewButton_callback ::
    "nat \<Rightarrow> user list \<Rightarrow> signup_view \<Rightarrow> persistent_crew \<Rightarrow> unit reply \<times> signup_view" where
  "JoinAlliesWithCrewButton_callback max_crews guild v crew = join_with_crew max_crews guild v crew TeamA"

definition JoinAxisWithCrewButton_callback ::
    "nat \<Rightarrow> user list \<Rightarrow> signup_view \<Rightarrow> persistent_crew \<Rightarrow> unit reply \<times> signup_view" where
  "JoinAxisWithCrewButton_callback max_crews guild v crew = join_with_crew max_crews guild v crew TeamB"

section \<open>Recruiting into a crew\<close>

text \<open>\<open>RecruitSelect.callback\<close>: the first recruit of the pool whose id is the selected one.\<close>

definition RecruitSelect_callback ::
    "signup_view \<Rightarrow> recruit_selection_view \<Rightarrow> nat \<Rightarrow> recruit_selection_view reply \<times> signup_view" where
  "RecruitSelect_callback v p selected_id =
     (case find (\<lambda>recruit. recruit = selected_id) (recruits v) of
        None \<Rightarrow> (Sends RecruitNotFound, v)
      | Some recruit \<Rightarrow> (Shows (p\<lparr>rsv_selected_recruit := Some recruit\<rparr>), v))"

text \<open>\<open>crew['gunner'] = recruit\<close> and \<open>crew['driver'] = recruit\<close> through the reference the
  view holds: the dict at that address changes, whichever slot refers to it.\<close>

definition write_gunner :: "ref \<Rightarrow> user option \<Rightarrow> signup_view \<Rightarrow> signup_view" where
  "write_gunner r x v = v\<lparr>dicts := (dicts v)(r := (dicts v r)\<lparr>gunner := x\<rparr>)\<rparr>"

definition write_driver :: "ref \<Rightarrow> user option \<Rightarrow> signup_view \<Rightarrow> signup_view" where
  "write_driver r x v = v\<lparr>dicts := (dicts v)(r := (dicts v r)\<lparr>driver := x\<rparr>)\<rparr>"

text \<open>
  The position buttons: the position is written first (a view built for a user without a
  crew holds \<open>None\<close>, which cannot be assigned into), then
  \<open>self.parent.main_view.recruits.remove(recruit)\<close>, which raises \<open>ValueError\<close> when the list
  does not hold the value, then the roster is rendered and the success message sent.
\<close>

definition remove_recruit :: "user option \<Rightarrow> signup_view \<Rightarrow> unit reply \<times> signup_view" where
  "remove_recruit x v =
     (case x of
        None \<Rightarrow> (Raises ValueError, v)
      | Some u \<Rightarrow> if u \<in> set (recruits v)
                  then update_and_send (v\<lparr>recruits := remove1 u (recruits v)\<rparr>)
                  else (Raises ValueError, v))"

definition AssignGunnerButton_callback ::
    "signup_view \<Rightarrow> recruit_selection_view \<Rightarrow> unit reply \<times> signup_view" where
  "AssignGunnerButton_callback v p =
     (case rsv_crew p of
        None \<Rightarrow> (Raises TypeError, v)
      | Some r \<Rightarrow> remove_recruit (rsv_selected_recruit p) (write_gunner r (rsv_selected_recruit p) v))"

definition AssignDriverButton_callback ::
    "signup_view \<Rightarrow> recruit_selection_view \<Rightarrow> unit reply \<times> signup_view" where
  "AssignDriverButton_callback v p =
     (case rsv_crew p of
        None \<Rightarrow> (Raises TypeError, v)
      | Some r \<Rightarrow> remove_recruit (rsv_selected_recruit p) (write_driver r (rsv_selected_recruit p) v))"

section \<open>Editing a crew\<close>

text \<open>\<open>EditGunnerButton.callback\<close> and \<open>EditDriverButton.callback\<close> show a new
  \<open>EditGunnerView(self.parent)\<close>, \<open>EditDriverView(self.parent)\<close>.\<close>

definition EditGunnerButton_callback :: "signup_view \<Rightarrow> edit_crew_view \<Rightarrow> edit_gunner_view reply \<times> signup_view" where
  "EditGunnerButton_callback v p = (Shows \<lparr>egv_parent = p\<rparr>, v)"

definition EditDriverButton_callback :: "signup_view \<Rightarrow> edit_crew_view \<Rightarrow> edit_driver_view reply \<times> signup_view" where
  "EditDriverButton_callback v p = (Shows \<lparr>edv_parent = p\<rparr>, v)"

text \<open>
  \<open>EditGunnerView.__init__\<close> adds \<open>UpdateGunnerSelect(self)\<close>, so \<open>self.view_parent\<close> of the
  select is the \<open>EditGunnerView\<close>, which has \<open>parent\<close> and neither \<open>main_view\<close> nor \<open>crew\<close> nor
  \<open>team\<close>. With a selection (\<open>values\<close> holds one user), the first thing the callback
  evaluates is \<open>self.view_parent.main_view\<close>; with none, it is \<open>self.view_parent.crew\<close> on the
  right of the assignment. Either raises \<open>AttributeError\<close> before anything is checked or
  written. \<open>UpdateDriverSelect\<close> is built and fails the same way.
\<close>

definition UpdateGunnerSelect_callback ::
    "signup_view \<Rightarrow> edit_gunner_view \<Rightarrow> user option \<Rightarrow> unit reply \<times> signup_view" where
  "UpdateGunnerSelect_callback v view_parent values =
     (case values of
        Some new_gunner \<Rightarrow> (Raises AttributeError, v)
      | None \<Rightarrow> (Raises AttributeError, v))"

definition UpdateDriverSelect_callback ::
    "signup_view \<Rightarrow> edit_driver_view \<Rightarrow> user option \<Rightarrow> unit reply \<times> signup_view" where
  "UpdateDriverSelect_callback v view_parent values =
     (case values of
        Some new_driver \<Rightarrow> (Raises AttributeError, v)
      | None \<Rightarrow> (Raises AttributeError, v))"

section \<open>Ending the event\<close>

text \<open>An entry of \<open>participants\<close>: \<open>(user, team, role, crew_name)\<close>.\<close>

type_synonym participant = "user option \<times> team option \<times> string \<times> string option"

text \<open>The body of \<open>if crew:\<close> for one dict, appending to the list built so far.\<close>

definition append_crew :: "team \<Rightarrow> crew \<Rightarrow> participant list \<Rightarrow> participant list" where
  "append_crew t c ps =
     (let ps1 = ps @ [(commander c, Some t, ''commander'', Some (crew_name c))];
          ps2 = (if gunner c \<noteq> commander c
                 then ps1 @ [(gunner c, Some t, ''gunner'', Some (crew_name c))] else ps1)
      in if driver c \<noteq> commander c
         then ps2 @ [(driver c, Some t, ''driver'', Some (crew_name c))] else ps2)"

fun append_crews :: "(ref \<Rightarrow> crew) \<Rightarrow> team \<Rightarrow> ref option list \<Rightarrow> participant list \<Rightarrow> participant list" where
  "append_crews h t [] ps = ps"
| "append_crews h t (slot # rest) ps =
     append_crews h t rest (case slot of None \<Rightarrow> ps | Some r \<Rightarrow> append_crew t (h r) ps)"

fun append_recruits :: "user list \<Rightarrow> participant list \<Rightarrow> participant list" where
  "append_recruits [] ps = ps"
| "append_recruits (recruit # rest) ps =
     append_recruits rest (ps @ [(Some recruit, None, ''recruit'', None)])"

definition get_participants :: "signup_view \<Rightarrow> participant list" where
  "get_participants v =
     (let ps0 = [];
          ps1 = (case commander_a v of
                   Some u \<Rightarrow> ps0 @ [(Some u, Some TeamA, ''commander'', None)] | None \<Rightarrow> ps0);
          ps2 = (case commander_b v of
                   Some u \<Rightarrow> ps1 @ [(Some u, Some TeamB, ''commander'', None)] | None \<Rightarrow> ps1);
          ps3 = append_crews (dicts v) TeamA (crews_a v) ps2;
          ps4 = append_crews (dicts v) TeamB (crews_b v) ps3
      in append_recruits (recruits v) ps4)"


section \<open>Vocabulary of the statements\<close>

text \<open>The three members \<open>join_with_crew\<close> derives from a stored crew, and the dicts the two
  allocating handlers write.\<close>

definition profile_members :: "user list \<Rightarrow> persistent_crew \<Rightarrow> user option list" where
  "profile_members guild crew =
     [get_member guild (commander_id crew),
      member_or guild (gunner_id crew) (get_member guild (commander_id crew)),
      member_or guild (driver_id crew) (get_member guild (commander_id crew))]"

definition profile_crew :: "user list \<Rightarrow> persistent_crew \<Rightarrow> crew" where
  "profile_crew guild crew =
     \<lparr>commander = get_member guild (commander_id crew), crew_name = pc_crew_name crew,
      gunner = member_or guild (gunner_id crew) (get_member guild (commander_id crew)),
      driver = member_or guild (driver_id crew) (get_member guild (commander_id crew)),
      persistent_crew_id = Some (pc_id crew)\<rparr>"

definition modal_crew :: "crew_name_modal \<Rightarrow> string \<Rightarrow> crew" where
  "modal_crew m name =
     \<lparr>commander = Some (csv_commander (cnm_parent m)), crew_name = name,
      gunner = csv_gunner (cnm_parent m), driver = Some (cnm_driver m),
      persistent_crew_id = None\<rparr>"

section \<open>Example rosters\<close>

definition plain_crew :: "user \<Rightarrow> user \<Rightarrow> user \<Rightarrow> string \<Rightarrow> crew" where
  "plain_crew c g d name =
     \<lparr>commander = Some c, crew_name = name, gunner = Some g, driver = Some d,
      persistent_crew_id = None\<rparr>"

definition crew_modal :: "team \<Rightarrow> user \<Rightarrow> user \<Rightarrow> user \<Rightarrow> crew_name_modal" where
  "crew_modal t c g d =
     \<lparr>cnm_parent = \<lparr>csv_team = t, csv_commander = c, csv_gunner = Some g\<rparr>, cnm_driver = d\<rparr>"

definition full_team_view :: signup_view where
  "full_team_view =
     \<lparr>commander_a = None, commander_b = None,
      crews_a = [Some 0, Some 1, Some 2], crews_b = [None, None, None],
      recruits = [],
      dicts = (\<lambda>_. empty_crew)
        (0 := plain_crew 11 12 13 ''Alpha'', 1 := plain_crew 21 22 23 ''Bravo'',
         2 := plain_crew 31 32 33 ''Charlie''),
      next_ref = 3, message = True, children_disabled = False\<rparr>"

definition saved_crew :: persistent_crew where
  "saved_crew = \<lparr>pc_id = 40, pc_crew_name = ''Delta'', commander_id = 41,
     gunner_id = Some 42, driver_id = None\<rparr>"

definition recruit_view :: signup_view where
  "recruit_view = (posted_view 3)\<lparr>recruits := [42]\<rparr>"


text \<open>The final participant list in the words of the specification: both commanders; for
  every occupied slot the commander with the crew name, then gunner and driver unless they
  are the commander; every recruit without a faction.\<close>

fun occupied :: "ref option list \<Rightarrow> ref list" where
  "occupied [] = []"
| "occupied (None # rest) = occupied rest"
| "occupied (Some r # rest) = r # occupied rest"

definition crew_entries :: "team \<Rightarrow> crew \<Rightarrow> participant list" where
  "crew_entries t c =
     (commander c, Some t, ''commander'', Some (crew_name c)) #
     (if gunner c = commander c then [] else [(gunner c, Some t, ''gunner'', Some (crew_name c))]) @
     (if driver c = commander c then [] else [(driver c, Some t, ''driver'', Some (crew_name c))])"

definition commander_entry :: "team \<Rightarrow> user option \<Rightarrow> participant list" where
  "commander_entry t c =
     (case c of None \<Rightarrow> [] | Some u \<Rightarrow> [(Some u, Some t, ''commander'', None)])"

definition participants_spec :: "signup_view \<Rightarrow> participant list" where
  "participants_spec v =
     commander_entry TeamA (commander_a v) @ commander_entry TeamB (commander_b v) @
     concat (map (\<lambda>r. crew_entries TeamA (dicts v r)) (occupied (crews_a v))) @
     concat (map (\<lambda>r. crew_entries TeamB (dicts v r)) (occupied (crews_b v))) @
     map (\<lambda>u. (Some u, None, ''recruit'', None)) (recruits v)"

definition has_faction :: "participant \<Rightarrow> bool" where
  "has_faction p = (fst (snd p) \<noteq> None)"

definition finale_view :: signup_view where
  "finale_view =
     \<lparr>commander_a = Some 1, commander_b = Some 2,
      crews_a = [None, None, None], crews_b = [None, Some 0, None],
      recruits = [6, 7],
      dicts = (\<lambda>_. empty_crew)(0 := plain_crew 3 4 5 ''Echo''),
      next_ref = 1, message = True, children_disabled = False\<rparr>"

definition pool_view :: signup_view where
  "pool_view = full_team_view\<lparr>recruits := [61, 62]\<rparr>"

definition pool_selection :: recruit_selection_view where
  "pool_selection = \<lparr>rsv_commander = 21, rsv_crew = Some 1, rsv_team = Some TeamA,
     rsv_slot_index = Some 1, rsv_selected_recruit = None\<rparr>"

definition two_crews_view :: signup_view where
  "two_crews_view =
     \<lparr>commander_a = None, commander_b = None,
      crews_a = [Some 0, Some 1, None], crews_b = [None, None, None],
      recruits = [],
      dicts = (\<lambda>_. empty_crew)
        (0 := plain_crew 11 12 13 ''Alpha'', 1 := plain_crew 21 22 23 ''Bravo''),
      next_ref = 2, message = True, children_disabled = False\<rparr>"

text \<open>The three identities of a stored crew in the words of the specification: the
  commander; the gunner and the driver, each the commander when the snapshot leaves it
  unset; and the crew slot made of them.\<close>

definition snapshot_id :: "persistent_crew \<Rightarrow> nat option \<Rightarrow> nat" where
  "snapshot_id crew k =
     (case k of None \<Rightarrow> commander_id crew | Some i \<Rightarrow> if i = 0 then commander_id crew else i)"

definition snapshot_ids :: "persistent_crew \<Rightarrow> nat list" where
  "snapshot_ids crew =
     [commander_id crew, snapshot_id crew (gunner_id crew), snapshot_id crew (driver_id crew)]"

definition snapshot_crew :: "persistent_crew \<Rightarrow> crew" where
  "snapshot_crew crew =
     \<lparr>commander = Some (commander_id crew), crew_name = pc_crew_name crew,
      gunner = Some (snapshot_id crew (gunner_id crew)),
      driver = Some (snapshot_id crew (driver_id crew)),
      persistent_crew_id = Some (pc_id crew)\<rparr>"

definition other_team :: "team \<Rightarrow> team" where
  "other_team t = (if t = TeamA then TeamB else TeamA)"

text \<open>The number of places a user holds on the roster: commander of a faction, a crew slot
  (counted once, in whatever positions of it), an entry of the recruit pool.\<close>

definition places_held :: "signup_view \<Rightarrow> user \<Rightarrow> nat" where
  "places_held v u =
     (if commander_a v = Some u then 1 else 0) + (if commander_b v = Some u then 1 else 0) +
     length (filter (slot_has (dicts v) u) (crews_a v @ crews_b v)) +
     count_list (recruits v) u"




section \<open>Unfolding the handlers\<close>

lemma first_empty_Found_iff:
  "first_empty xs i n = Found k \<longleftrightarrow>
     i \<le> k \<and> k < i + n \<and> k < length xs \<and> xs ! k = None \<and> (\<forall>j. i \<le> j \<and> j < k \<longrightarrow> xs ! j \<noteq> None)"
proof (induction n arbitrary: i)
  case 0
  then show ?case by auto
next
  case (Suc n)
  show ?case
  proof (cases "length xs \<le> i")
    case True
    then show ?thesis by auto
  next
    case False
    note inrange = this
    show ?thesis
    proof (cases "xs ! i = None")
      case True
      with inrange show ?thesis
        by (auto simp: not_le)
    next
      case False
      have "first_empty xs i (Suc n) = first_empty xs (Suc i) n"
        using inrange False by auto
      also have "\<dots> = Found k \<longleftrightarrow> Suc i \<le> k \<and> k < Suc i + n \<and> k < length xs \<and> xs ! k = None \<and>
          (\<forall>j. Suc i \<le> j \<and> j < k \<longrightarrow> xs ! j \<noteq> None)"
        by (rule Suc.IH)
      finally show ?thesis
        using False by (auto simp: Suc_le_eq) (metis le_neq_implies_less)+
    qed
  qed
qed

lemma first_empty_NoSlot:
  "i + n \<le> length xs \<Longrightarrow> (\<forall>j. i \<le> j \<and> j < i + n \<longrightarrow> xs ! j \<noteq> None) \<Longrightarrow> first_empty xs i n = NoSlot"
proof (induction n arbitrary: i)
  case 0
  then show ?case by simp
next
  case (Suc n)
  from Suc.prems have "xs ! i \<noteq> None" "\<not> length xs \<le> i" by auto
  moreover have "first_empty xs (Suc i) n = NoSlot"
    using Suc.prems by (intro Suc.IH) auto
  ultimately show ?case by auto
qed

lemma first_empty_full:
  assumes "list_all (\<lambda>slot. slot \<noteq> None) xs"
  shows "first_empty xs 0 (length xs) = NoSlot"
proof (rule first_empty_NoSlot)
  show "0 + length xs \<le> length xs" by simp
  show "\<forall>j. 0 \<le> j \<and> j < 0 + length xs \<longrightarrow> xs ! j \<noteq> None"
    using assms by (simp add: list_all_length)
qed

lemma first_empty_exists:
  assumes "k < length xs" and "k < n" and "xs ! k = None"
  shows "\<exists>i\<le>k. first_empty xs 0 n = Found i"
proof -
  define P where "P j \<longleftrightarrow> xs ! j = None" for j
  define i where "i = (LEAST j. P j)"
  have "P k" using assms by (simp add: P_def)
  then have "P i" and "i \<le> k" and least: "\<And>j. j < i \<Longrightarrow> \<not> P j"
    unfolding i_def by (auto intro: LeastI Least_le dest: not_less_Least)
  then have "first_empty xs 0 n = Found i"
    using assms by (simp add: first_empty_Found_iff P_def)
  with \<open>i \<le> k\<close> show ?thesis by blast
qed

lemma first_registered_None_iff:
  "first_registered v ms = None \<longleftrightarrow> (\<forall>u. Some u \<in> set ms \<longrightarrow> \<not> is_user_registered v u)"
  by (induction ms) (auto split: option.splits)

lemma first_registered_Some:
  "first_registered v ms = Some m \<Longrightarrow> Some m \<in> set ms \<and> is_user_registered v m"
  by (induction ms) (auto split: option.splits if_splits)

lemma on_submit_cases:
  "CrewNameModal_on_submit n v m name =
     (case first_empty (slot_list (csv_team (cnm_parent m)) v) 0 n of
        Found i \<Rightarrow> update_and_send (store_crew (csv_team (cnm_parent m)) i (modal_crew m name) v)
      | NoSlot \<Rightarrow> (Sends TeamFull, v)
      | OutOfRange \<Rightarrow> (Raises IndexError, v))"
  by (simp add: CrewNameModal_on_submit_def modal_crew_def Let_def split: scan.splits)

lemma join_with_crew_cases:
  "join_with_crew n guild v crew t =
     (case first_registered v (profile_members guild crew) of
        Some m \<Rightarrow> (Sends (MemberAlreadyRegistered m), v)
      | None \<Rightarrow>
          (case first_empty (slot_list t v) 0 n of
             Found i \<Rightarrow> update_and_send (store_crew t i (profile_crew guild crew) v)
           | NoSlot \<Rightarrow> (Sends TeamFull, v)
           | OutOfRange \<Rightarrow> (Raises IndexError, v)))"
  by (simp add: join_with_crew_def profile_members_def profile_crew_def Let_def split: scan.splits option.splits)

lemma slot_list_store_crew:
  "slot_list t (store_crew t i c v) = (slot_list t v)[i := Some (next_ref v)]"
  "t' \<noteq> t \<Longrightarrow> slot_list t' (store_crew t i c v) = slot_list t' v"
  "dicts (store_crew t i c v) = (dicts v)(next_ref v := c)"
  "commander_a (store_crew t i c v) = commander_a v"
  "commander_b (store_crew t i c v) = commander_b v"
  "recruits (store_crew t i c v) = recruits v"
  by (cases t; cases t'; simp add: store_crew_def set_slot_def slot_list_def)+

lemma slot_list_set_slot:
  "slot_list t (set_slot t i x v) = (slot_list t v)[i := x]"
  by (cases t) (simp_all add: set_slot_def slot_list_def)

section \<open>Allocation of crew slots\<close>

text \<open>
  C8. When a faction's slot array (of the configured length) has no empty slot, an allocation
  into that faction answers "team is full" and returns the roster as it was: this holds for
  the direct crew creation (\<open>CrewNameModal.on_submit\<close>) and for the join with a stored crew
  once its registration check has passed (\<open>join_with_crew\<close>).
\<close>

theorem team_full_rejected:
  assumes "length (slot_list t v) = max_crews"
    and "list_all (\<lambda>slot. slot \<noteq> None) (slot_list t v)"
  shows "(csv_team (cnm_parent m) = t \<longrightarrow>
           CrewNameModal_on_submit max_crews v m name = (Sends TeamFull, v)) \<and>
         (first_registered v (profile_members guild crew) = None \<longrightarrow>
           join_with_crew max_crews guild v crew t = (Sends TeamFull, v))"
proof -
  have "first_empty (slot_list t v) 0 max_crews = NoSlot"
    using first_empty_full [OF assms(2)] assms(1) by simp
  then show ?thesis
    by (simp add: on_submit_cases join_with_crew_cases)
qed

lemma update_and_send_simps:
  "snd (update_and_send v) = v"
  "fst (update_and_send v) = (case update_embed v of None \<Rightarrow> Sends Done | Some e \<Rightarrow> Raises e)"
  "fst (update_and_send v) \<noteq> Sends TeamFull"
  "fst (update_and_send v) \<noteq> Raises IndexError"
  by (simp_all add: update_and_send_def update_embed_def build_embed_def split: option.splits)

text \<open>
  C2. Whenever one of the two allocating handlers writes a crew (it then answers with the
  success message, or raises \<open>AttributeError\<close> when the roster does not render), the crew is
  in the lowest-indexed empty slot of the faction: that slot was empty, every slot below
  it was occupied, and it now refers to the dict just written, nothing else changed. After
  slot \<open>k\<close> of a faction has been released, the next allocation writes at an index \<open>i \<le> k\<close>,
  never above \<open>k\<close>, and at \<open>k\<close> itself when every slot below \<open>k\<close> is occupied.
\<close>

theorem first_fit_allocation:
  "(fst (CrewNameModal_on_submit max_crews v m name) = Sends Done \<or>
    fst (CrewNameModal_on_submit max_crews v m name) = Raises AttributeError \<longrightarrow>
      (\<exists>k<max_crews. slot_list (csv_team (cnm_parent m)) v ! k = None \<and>
         (\<forall>j<k. slot_list (csv_team (cnm_parent m)) v ! j \<noteq> None) \<and>
         snd (CrewNameModal_on_submit max_crews v m name) =
           store_crew (csv_team (cnm_parent m)) k (modal_crew m name) v \<and>
         slot_list (csv_team (cnm_parent m)) (snd (CrewNameModal_on_submit max_crews v m name)) =
           (slot_list (csv_team (cnm_parent m)) v)[k := Some (next_ref v)] \<and>
         dicts (snd (CrewNameModal_on_submit max_crews v m name)) (next_ref v) = modal_crew m name)) \<and>
   (fst (join_with_crew max_crews guild v crew t) = Sends Done \<or>
    fst (join_with_crew max_crews guild v crew t) = Raises AttributeError \<longrightarrow>
      (\<exists>k<max_crews. slot_list t v ! k = None \<and> (\<forall>j<k. slot_list t v ! j \<noteq> None) \<and>
         snd (join_with_crew max_crews guild v crew t) = store_crew t k (profile_crew guild crew) v \<and>
         slot_list t (snd (join_with_crew max_crews guild v crew t)) =
           (slot_list t v)[k := Some (next_ref v)] \<and>
         dicts (snd (join_with_crew max_crews guild v crew t)) (next_ref v) =
           profile_crew guild crew)) \<and>
   (k < max_crews \<and> length (slot_list t v) = max_crews \<longrightarrow>
      (\<exists>i\<le>k. ((\<forall>j<k. slot_list t v ! j \<noteq> None) \<longrightarrow> i = k) \<and>
         (csv_team (cnm_parent m) = t \<longrightarrow>
            snd (CrewNameModal_on_submit max_crews (set_slot t k None v) m name) =
              store_crew t i (modal_crew m name) (set_slot t k None v) \<and>
            fst (CrewNameModal_on_submit max_crews (set_slot t k None v) m name) =
              (case update_embed (store_crew t i (modal_crew m name) (set_slot t k None v)) of
                 None \<Rightarrow> Sends Done | Some e \<Rightarrow> Raises e)) \<and>
         (first_registered (set_slot t k None v) (profile_members guild crew) = None \<longrightarrow>
            snd (join_with_crew max_crews guild (set_slot t k None v) crew t) =
              store_crew t i (profile_crew guild crew) (set_slot t k None v) \<and>
            fst (join_with_crew max_crews guild (set_slot t k None v) crew t) =
              (case update_embed (store_crew t i (profile_crew guild crew) (set_slot t k None v)) of
                 None \<Rightarrow> Sends Done | Some e \<Rightarrow> Raises e))))"
proof (intro conjI impI)
  let ?t = "csv_team (cnm_parent m)"
  let ?res = "CrewNameModal_on_submit max_crews v m name"
  assume ok: "fst ?res = Sends Done \<or> fst ?res = Raises AttributeError"
  then obtain k where k: "first_empty (slot_list ?t v) 0 max_crews = Found k"
    by (cases "first_empty (slot_list ?t v) 0 max_crews") (auto simp: on_submit_cases)
  then have res: "snd ?res = store_crew ?t k (modal_crew m name) v"
    by (simp add: on_submit_cases update_and_send_simps)
  from k have "k < max_crews" "slot_list ?t v ! k = None" "\<forall>j<k. slot_list ?t v ! j \<noteq> None"
    by (simp_all add: first_empty_Found_iff)
  then show "\<exists>k<max_crews. slot_list ?t v ! k = None \<and> (\<forall>j<k. slot_list ?t v ! j \<noteq> None) \<and>
      snd ?res = store_crew ?t k (modal_crew m name) v \<and>
      slot_list ?t (snd ?res) = (slot_list ?t v)[k := Some (next_ref v)] \<and>
      dicts (snd ?res) (next_ref v) = modal_crew m name"
    using res by (auto simp: slot_list_store_crew)
next
  let ?res = "join_with_crew max_crews guild v crew t"
  assume ok: "fst ?res = Sends Done \<or> fst ?res = Raises AttributeError"
  then have free: "first_registered v (profile_members guild crew) = None"
    by (cases "first_registered v (profile_members guild crew)") (auto simp: join_with_crew_cases)
  with ok obtain k where k: "first_empty (slot_list t v) 0 max_crews = Found k"
    by (cases "first_empty (slot_list t v) 0 max_crews") (auto simp: join_with_crew_cases)
  with free have res: "snd ?res = store_crew t k (profile_crew guild crew) v"
    by (simp add: join_with_crew_cases update_and_send_simps)
  from k have "k < max_crews" "slot_list t v ! k = None" "\<forall>j<k. slot_list t v ! j \<noteq> None"
    by (simp_all add: first_empty_Found_iff)
  then show "\<exists>k<max_crews. slot_list t v ! k = None \<and> (\<forall>j<k. slot_list t v ! j \<noteq> None) \<and>
      snd ?res = store_crew t k (profile_crew guild crew) v \<and>
      slot_list t (snd ?res) = (slot_list t v)[k := Some (next_ref v)] \<and>
      dicts (snd ?res) (next_ref v) = profile_crew guild crew"
    using res by (auto simp: slot_list_store_crew)
next
  assume "k < max_crews \<and> length (slot_list t v) = max_crews"
  then have k: "k < max_crews" and len: "length (slot_list t v) = max_crews" by simp_all
  let ?v = "set_slot t k None v"
  have xs: "slot_list t ?v = (slot_list t v)[k := None]"
    by (rule slot_list_set_slot)
  have "\<exists>i\<le>k. first_empty (slot_list t ?v) 0 max_crews = Found i"
    by (rule first_empty_exists) (use k len xs in simp_all)
  then obtain i where i: "i \<le> k" "first_empty (slot_list t ?v) 0 max_crews = Found i"
    by blast
  have "i = k" if full: "\<forall>j<k. slot_list t v ! j \<noteq> None"
  proof (rule ccontr)
    assume "i \<noteq> k"
    with i(1) have "i < k" by simp
    moreover from i(2) have "slot_list t ?v ! i = None"
      by (simp add: first_empty_Found_iff)
    ultimately show False using full xs by simp
  qed
  moreover have "snd (CrewNameModal_on_submit max_crews ?v m name) =
        store_crew t i (modal_crew m name) ?v \<and>
      fst (CrewNameModal_on_submit max_crews ?v m name) =
        (case update_embed (store_crew t i (modal_crew m name) ?v) of
           None \<Rightarrow> Sends Done | Some e \<Rightarrow> Raises e)"
    if "csv_team (cnm_parent m) = t"
    using that i(2) by (simp add: on_submit_cases update_and_send_simps)
  moreover have "snd (join_with_crew max_crews guild ?v crew t) =
        store_crew t i (profile_crew guild crew) ?v \<and>
      fst (join_with_crew max_crews guild ?v crew t) =
        (case update_embed (store_crew t i (profile_crew guild crew) ?v) of
           None \<Rightarrow> Sends Done | Some e \<Rightarrow> Raises e)"
    if "first_registered ?v (profile_members guild crew) = None"
    using that i(2) by (simp add: join_with_crew_cases update_and_send_simps)
  ultimately show "\<exists>i\<le>k. ((\<forall>j<k. slot_list t v ! j \<noteq> None) \<longrightarrow> i = k) \<and>
         (csv_team (cnm_parent m) = t \<longrightarrow>
            snd (CrewNameModal_on_submit max_crews ?v m name) =
              store_crew t i (modal_crew m name) ?v \<and>
            fst (CrewNameModal_on_submit max_crews ?v m name) =
              (case update_embed (store_crew t i (modal_crew m name) ?v) of
                 None \<Rightarrow> Sends Done | Some e \<Rightarrow> Raises e)) \<and>
         (first_registered ?v (profile_members guild crew) = None \<longrightarrow>
            snd (join_with_crew max_crews guild ?v crew t) =
              store_crew t i (profile_crew guild crew) ?v \<and>
            fst (join_with_crew max_crews guild ?v crew t) =
              (case update_embed (store_crew t i (profile_crew guild crew) ?v) of
                 None \<Rightarrow> Sends Done | Some e \<Rightarrow> Raises e))"
    using i(1) by (intro exI [of _ i]) blast
qed

section \<open>The statements on the example rosters\<close>

lemmas eval_defs =
  new_view_def posted_view_def format_crew_def build_embed_def update_embed_def
  update_and_send_def slot_list_def set_slot_def store_crew_def crew_has_def slot_has_def
  is_user_registered_def get_member_def member_or_def profile_members_def
  profile_crew_def modal_crew_def plain_crew_def crew_modal_def saved_crew_def
  CrewNameModal_on_submit_def join_with_crew_def numeral_3_eq_3 numeral_2_eq_2 Let_def

lemma full_team_view_reached:
  "snd (CrewNameModal_on_submit 3
     (snd (CrewNameModal_on_submit 3
        (snd (CrewNameModal_on_submit 3 (posted_view 3) (crew_modal TeamA 11 12 13) ''Alpha''))
        (crew_modal TeamA 21 22 23) ''Bravo''))
     (crew_modal TeamA 31 32 33) ''Charlie'') = full_team_view"
  by (simp add: eval_defs full_team_view_def)

theorem team_full_rejected_witness:
  "length (slot_list TeamA full_team_view) = 3 \<and>
   list_all (\<lambda>slot. slot \<noteq> None) (slot_list TeamA full_team_view) \<and>
   CrewNameModal_on_submit 3 full_team_view (crew_modal TeamA 41 42 43) ''Delta'' =
     (Sends TeamFull, full_team_view) \<and>
   first_registered full_team_view (profile_members [41, 42] saved_crew) = None \<and>
   join_with_crew 3 [41, 42] full_team_view saved_crew TeamA = (Sends TeamFull, full_team_view)"
proof -
  have len: "length (slot_list TeamA full_team_view) = 3"
    by (simp add: full_team_view_def slot_list_def)
  have full: "list_all (\<lambda>slot. slot \<noteq> None) (slot_list TeamA full_team_view)"
    by (simp add: full_team_view_def slot_list_def)
  have team: "csv_team (cnm_parent (crew_modal TeamA 41 42 43)) = TeamA"
    by (simp add: crew_modal_def)
  have free: "first_registered full_team_view (profile_members [41, 42] saved_crew) = None"
    by (simp add: eval_defs full_team_view_def)
  from team_full_rejected [OF len full, of "crew_modal TeamA 41 42 43" "''Delta''" "[41, 42]" saved_crew]
    len full team free
  show ?thesis by simp
qed

theorem first_fit_allocation_witness:
  "(0::nat) < 3 \<and> length (slot_list TeamA two_crews_view) = 3 \<and>
   slot_list TeamA (set_slot TeamA 0 None two_crews_view) = [None, Some 1, None] \<and>
   first_registered (set_slot TeamA 0 None two_crews_view) (profile_members [41, 42] saved_crew) = None \<and>
   CrewNameModal_on_submit 3 (set_slot TeamA 0 None two_crews_view) (crew_modal TeamA 41 42 43) ''Delta'' =
     (Sends Done, store_crew TeamA 0 (modal_crew (crew_modal TeamA 41 42 43) ''Delta'')
        (set_slot TeamA 0 None two_crews_view)) \<and>
   join_with_crew 3 [41, 42] (set_slot TeamA 0 None two_crews_view) saved_crew TeamA =
     (Sends Done, store_crew TeamA 0 (profile_crew [41, 42] saved_crew)
        (set_slot TeamA 0 None two_crews_view)) \<and>
   slot_list TeamA (snd (CrewNameModal_on_submit 3 (set_slot TeamA 0 None two_crews_view)
       (crew_modal TeamA 41 42 43) ''Delta'')) = [Some 2, Some 1, None] \<and>
   slot_list TeamA (snd (join_with_crew 3 [41, 42] (set_slot TeamA 0 None two_crews_view)
       saved_crew TeamA)) = [Some 2, Some 1, None]"
proof -
  let ?v = "set_slot TeamA 0 None two_crews_view"
  let ?m = "crew_modal TeamA 41 42 43"
  let ?va = "store_crew TeamA 0 (modal_crew ?m ''Delta'') ?v"
  let ?vb = "store_crew TeamA 0 (profile_crew [41, 42] saved_crew) ?v"
  let ?ra = "CrewNameModal_on_submit 3 ?v ?m ''Delta''"
  let ?rb = "join_with_crew 3 [41, 42] ?v saved_crew TeamA"
  have len: "(0::nat) < 3 \<and> length (slot_list TeamA two_crews_view) = 3"
    by (simp add: two_crews_view_def slot_list_def)
  have slots: "slot_list TeamA ?v = [None, Some 1, None]"
    by (simp add: two_crews_view_def slot_list_def set_slot_def)
  have pre: "\<forall>j<0. slot_list TeamA two_crews_view ! j \<noteq> None"
    by simp
  have team: "csv_team (cnm_parent ?m) = TeamA"
    by (simp add: crew_modal_def)
  have free: "first_registered ?v (profile_members [41, 42] saved_crew) = None"
    by (simp add: eval_defs two_crews_view_def)
  have rendera: "update_embed ?va = None"
    by (simp add: eval_defs two_crews_view_def)
  have renderb: "update_embed ?vb = None"
    by (simp add: eval_defs two_crews_view_def)
  note rel = first_fit_allocation
    [where max_crews = 3 and v = two_crews_view and m = ?m and name = "''Delta''"
       and guild = "[41, 42]" and crew = saved_crew and t = TeamA and k = 0,
     THEN conjunct2, THEN conjunct2, THEN mp, OF len]
  from rel obtain i where i: "(\<forall>j<0. slot_list TeamA two_crews_view ! j \<noteq> None) \<longrightarrow> i = 0"
    and sub: "csv_team (cnm_parent ?m) = TeamA \<longrightarrow>
         snd ?ra = store_crew TeamA i (modal_crew ?m ''Delta'') ?v \<and>
         fst ?ra = (case update_embed (store_crew TeamA i (modal_crew ?m ''Delta'') ?v) of
                      None \<Rightarrow> Sends Done | Some e \<Rightarrow> Raises e)"
    and joi: "first_registered ?v (profile_members [41, 42] saved_crew) = None \<longrightarrow>
         snd ?rb = store_crew TeamA i (profile_crew [41, 42] saved_crew) ?v \<and>
         fst ?rb = (case update_embed (store_crew TeamA i (profile_crew [41, 42] saved_crew) ?v) of
                      None \<Rightarrow> Sends Done | Some e \<Rightarrow> Raises e)"
    by (elim exE conjE)
  from i pre have i0: "i = 0" by (rule mp)
  from sub team have "snd ?ra = ?va \<and>
      fst ?ra = (case update_embed ?va of None \<Rightarrow> Sends Done | Some e \<Rightarrow> Raises e)"
    unfolding i0 by (rule mp)
  then have a: "?ra = (Sends Done, ?va)"
    by (simp add: rendera prod_eq_iff)
  from joi free have "snd ?rb = ?vb \<and>
      fst ?rb = (case update_embed ?vb of None \<Rightarrow> Sends Done | Some e \<Rightarrow> Raises e)"
    unfolding i0 by (rule mp)
  then have b: "?rb = (Sends Done, ?vb)"
    by (simp add: renderb prod_eq_iff)
  have nr: "next_ref ?v = 2"
    by (simp add: two_crews_view_def set_slot_def)
  have oka: "fst ?ra = Sends Done \<or> fst ?ra = Raises AttributeError"
    using a by simp
  have okb: "fst ?rb = Sends Done \<or> fst ?rb = Raises AttributeError"
    using b by simp
  note alloca = first_fit_allocation
    [where max_crews = 3 and v = ?v and m = ?m and name = "''Delta''",
     THEN conjunct1, THEN mp, OF oka]
  then obtain ka where "slot_list (csv_team (cnm_parent ?m)) ?v ! ka = None"
      "\<forall>j<ka. slot_list (csv_team (cnm_parent ?m)) ?v ! j \<noteq> None"
      "slot_list (csv_team (cnm_parent ?m)) (snd ?ra) =
         (slot_list (csv_team (cnm_parent ?m)) ?v)[ka := Some (next_ref ?v)]"
    by (elim exE conjE)
  then have ka: "slot_list TeamA ?v ! ka = None" "\<forall>j<ka. slot_list TeamA ?v ! j \<noteq> None"
      "slot_list TeamA (snd ?ra) = (slot_list TeamA ?v)[ka := Some 2]"
    unfolding team nr by simp_all
  have "ka = 0"
  proof (rule ccontr)
    assume "ka \<noteq> 0"
    then have "0 < ka" by simp
    with ka(2) have "slot_list TeamA ?v ! 0 \<noteq> None" by blast
    with slots show False by simp
  qed
  with ka(3) slots have sa: "slot_list TeamA (snd ?ra) = [Some 2, Some 1, None]"
    by simp
  note allocb = first_fit_allocation
    [where max_crews = 3 and v = ?v and guild = "[41, 42]" and crew = saved_crew and t = TeamA,
     THEN conjunct2, THEN conjunct1, THEN mp, OF okb]
  then obtain kb where kb: "slot_list TeamA ?v ! kb = None"
      "\<forall>j<kb. slot_list TeamA ?v ! j \<noteq> None"
      "slot_list TeamA (snd ?rb) = (slot_list TeamA ?v)[kb := Some (next_ref ?v)]"
    by (elim exE conjE)
  have "kb = 0"
  proof (rule ccontr)
    assume "kb \<noteq> 0"
    then have "0 < kb" by simp
    with kb(2) have "slot_list TeamA ?v ! 0 \<noteq> None" by blast
    with slots show False by simp
  qed
  with kb(3) slots nr have sb: "slot_list TeamA (snd ?rb) = [Some 2, Some 1, None]"
    by simp
  from len slots free a b sa sb show ?thesis
    by (intro conjI) (elim conjE, assumption)+
qed

lemma release_if_member_absent:
  "\<not> slot_has (dicts v) u (slot_list t v ! i) \<Longrightarrow> release_if_member u t i (v, r) = (v, r)"
  by (simp add: release_if_member_def)

lemma leave_loop_absent:
  "i + n \<le> length (crews_a v) \<Longrightarrow> i + n \<le> length (crews_b v) \<Longrightarrow>
   (\<forall>j. i \<le> j \<and> j < i + n \<longrightarrow>
      \<not> slot_has (dicts v) u (crews_a v ! j) \<and> \<not> slot_has (dicts v) u (crews_b v ! j)) \<Longrightarrow>
   leave_loop u i n (v, r) = (None, v, r)"
proof (induction n arbitrary: i)
  case 0
  then show ?case by simp
next
  case (Suc n)
  from Suc.prems have here: "\<not> slot_has (dicts v) u (crews_a v ! i)"
      "\<not> slot_has (dicts v) u (crews_b v ! i)"
    by auto
  have a: "release_if_member u TeamA i (v, r) = (v, r)"
    using here by (simp add: release_if_member_absent slot_list_def)
  have b: "release_if_member u TeamB i (v, r) = (v, r)"
    using here by (simp add: release_if_member_absent slot_list_def)
  have "leave_loop u (Suc i) n (v, r) = (None, v, r)"
    using Suc.prems by (intro Suc.IH) auto
  with Suc.prems a b show ?case by simp
qed

lemma unregistered_slots:
  assumes "\<not> is_user_registered v u"
  shows "j < length (crews_a v) \<Longrightarrow> \<not> slot_has (dicts v) u (crews_a v ! j)"
    and "j < length (crews_b v) \<Longrightarrow> \<not> slot_has (dicts v) u (crews_b v ! j)"
    and "commander_a v \<noteq> Some u" and "commander_b v \<noteq> Some u" and "u \<notin> set (recruits v)"
  using assms by (auto simp: is_user_registered_def list_ex_iff split: if_splits)

section \<open>Leaving\<close>

text \<open>
  C9. For a user who is neither a faction commander, nor in any position of any crew, nor
  in the recruit pool, \<open>LeaveEventButton.callback\<close> answers "Not registered!" and returns the
  view unchanged (slot arrays of the configured length).
\<close>

theorem leave_unregistered_noop:
  assumes "length (crews_a v) = max_crews" and "length (crews_b v) = max_crews"
    and "\<not> is_user_registered v u"
  shows "LeaveEventButton_callback max_crews v u = (Sends NotRegistered, v)"
proof -
  have "leave_loop u 0 max_crews (v, False) = (None, v, False)"
    using assms unregistered_slots [OF assms(3)] by (intro leave_loop_absent) auto
  moreover have "Some u \<noteq> commander_a v" "Some u \<noteq> commander_b v" "u \<notin> set (recruits v)"
    using unregistered_slots [OF assms(3)] by auto
  ultimately show ?thesis
    by (simp add: LeaveEventButton_callback_def)
qed



theorem leave_unregistered_noop_witness:
  "length (crews_a full_team_view) = 3 \<and> length (crews_b full_team_view) = 3 \<and>
   \<not> is_user_registered full_team_view 99 \<and>
   LeaveEventButton_callback 3 full_team_view 99 = (Sends NotRegistered, full_team_view)"
proof -
  have len: "length (crews_a full_team_view) = 3" "length (crews_b full_team_view) = 3"
    by (simp_all add: full_team_view_def)
  have free: "\<not> is_user_registered full_team_view 99"
    by (simp add: eval_defs full_team_view_def)
  from leave_unregistered_noop [OF len free] len free show ?thesis
    by (intro conjI)
qed



section \<open>The final participant list\<close>

lemma append_crew_eq: "append_crew t c ps = ps @ crew_entries t c"
  by (simp add: append_crew_def crew_entries_def Let_def)

lemma append_crews_eq:
  "append_crews h t xs ps = ps @ concat (map (\<lambda>r. crew_entries t (h r)) (occupied xs))"
proof (induction xs arbitrary: ps)
  case Nil
  then show ?case by simp
next
  case (Cons slot xs)
  then show ?case by (cases slot) (simp_all add: append_crew_eq)
qed

lemma append_recruits_eq:
  "append_recruits rs ps = ps @ map (\<lambda>u. (Some u, None, ''recruit'', None)) rs"
  by (induction rs arbitrary: ps) simp_all

lemma get_participants_eq: "get_participants v = participants_spec v"
  by (cases "commander_a v"; cases "commander_b v")
     (simp_all add: get_participants_def participants_spec_def commander_entry_def
        append_crews_eq append_recruits_eq Let_def)

lemma crew_entries_distinct:
  assumes "gunner c \<noteq> commander c" and "driver c \<noteq> commander c"
  shows "length (crew_entries t c) = 3" and "length (filter has_faction (crew_entries t c)) = 3"
  using assms by (simp_all add: crew_entries_def has_faction_def)

lemma crew_entries_self:
  assumes "gunner c = commander c" and "driver c = commander c"
  shows "crew_entries t c = [(commander c, Some t, ''commander'', Some (crew_name c))]"
  using assms by (simp add: crew_entries_def)

lemma one_crew_entries:
  assumes "occupied xs @ occupied ys = [r]"
    and "gunner (h r) \<noteq> commander (h r)" and "driver (h r) \<noteq> commander (h r)"
  shows "length (concat (map (\<lambda>r. crew_entries TeamA (h r)) (occupied xs)) @
                 concat (map (\<lambda>r. crew_entries TeamB (h r)) (occupied ys))) = 3"
    and "length (filter has_faction
           (concat (map (\<lambda>r. crew_entries TeamA (h r)) (occupied xs)) @
            concat (map (\<lambda>r. crew_entries TeamB (h r)) (occupied ys)))) = 3"
proof -
  from assms(1) consider "occupied xs = [r]" "occupied ys = []"
    | "occupied xs = []" "occupied ys = [r]"
    by (auto simp: append_eq_Cons_conv)
  then show "length (concat (map (\<lambda>r. crew_entries TeamA (h r)) (occupied xs)) @
                 concat (map (\<lambda>r. crew_entries TeamB (h r)) (occupied ys))) = 3"
    by cases (simp_all add: crew_entries_distinct [OF assms(2,3)])
  from assms(1) consider "occupied xs = [r]" "occupied ys = []"
    | "occupied xs = []" "occupied ys = [r]"
    by (auto simp: append_eq_Cons_conv)
  then show "length (filter has_faction
           (concat (map (\<lambda>r. crew_entries TeamA (h r)) (occupied xs)) @
            concat (map (\<lambda>r. crew_entries TeamB (h r)) (occupied ys)))) = 3"
    by cases (simp_all add: crew_entries_distinct [OF assms(2,3)])
qed

lemma recruits_no_faction:
  "filter has_faction (map (\<lambda>u. (Some u, None, ''recruit'', None)) rs) = []"
  by (induction rs) (simp_all add: has_faction_def)

text \<open>
  C5. The list built by \<open>EndEventButton.callback\<close> is the list of the specification: each
  set faction commander with role commander and no crew name; for each occupied slot the
  commander with the crew name, the gunner and the driver each unless equal to the commander
  (a fully self-crewed crew contributes its commander entry alone); each recruit with role
  recruit and no faction. With both commanders set, one occupied slot whose three members
  are distinct, and two recruits, the list has 7 entries, 5 of them with a faction.
\<close>

theorem finalize_participants:
  "get_participants v = participants_spec v \<and>
   (gunner c = commander c \<and> driver c = commander c \<longrightarrow>
      crew_entries t c = [(commander c, Some t, ''commander'', Some (crew_name c))]) \<and>
   (commander_a v = Some a \<and> commander_b v = Some b \<and>
    occupied (crews_a v) @ occupied (crews_b v) = [r] \<and>
    distinct [commander (dicts v r), gunner (dicts v r), driver (dicts v r)] \<and>
    length (recruits v) = 2 \<longrightarrow>
      length (get_participants v) = 7 \<and>
      length (filter has_faction (get_participants v)) = 5)"
proof (intro conjI impI)
  show "get_participants v = participants_spec v"
    by (rule get_participants_eq)
next
  assume "gunner c = commander c \<and> driver c = commander c"
  then show "crew_entries t c = [(commander c, Some t, ''commander'', Some (crew_name c))]"
    by (simp add: crew_entries_self)
next
  assume h: "commander_a v = Some a \<and> commander_b v = Some b \<and>
    occupied (crews_a v) @ occupied (crews_b v) = [r] \<and>
    distinct [commander (dicts v r), gunner (dicts v r), driver (dicts v r)] \<and>
    length (recruits v) = 2"
  then have one: "occupied (crews_a v) @ occupied (crews_b v) = [r]"
    and g: "gunner (dicts v r) \<noteq> commander (dicts v r)"
    and d: "driver (dicts v r) \<noteq> commander (dicts v r)"
    by auto
  define cs where "cs =
      concat (map (\<lambda>r. crew_entries TeamA (dicts v r)) (occupied (crews_a v))) @
      concat (map (\<lambda>r. crew_entries TeamB (dicts v r)) (occupied (crews_b v)))"
  have crews: "length cs = 3" "length (filter has_faction cs) = 3"
    unfolding cs_def by (rule one_crew_entries [where h = "dicts v", OF one g d])+
  have split: "participants_spec v =
      [(Some a, Some TeamA, ''commander'', None), (Some b, Some TeamB, ''commander'', None)] @
      cs @ map (\<lambda>u. (Some u, None, ''recruit'', None)) (recruits v)"
    using h by (simp add: participants_spec_def commander_entry_def cs_def)
  show "length (get_participants v) = 7"
    using h crews(1) by (simp add: get_participants_eq split)
  show "length (filter has_faction (get_participants v)) = 5"
    using crews(2) by (simp add: get_participants_eq split recruits_no_faction has_faction_def)
qed

theorem finalize_participants_witness:
  "commander_a finale_view = Some 1 \<and> commander_b finale_view = Some 2 \<and>
   occupied (crews_a finale_view) @ occupied (crews_b finale_view) = [0] \<and>
   distinct [commander (dicts finale_view 0), gunner (dicts finale_view 0),
     driver (dicts finale_view 0)] \<and>
   length (recruits finale_view) = 2 \<and>
   length (get_participants finale_view) = 7 \<and>
   length (filter has_faction (get_participants finale_view)) = 5 \<and>
   get_participants finale_view =
     [(Some 1, Some TeamA, ''commander'', None), (Some 2, Some TeamB, ''commander'', None),
      (Some 3, Some TeamB, ''commander'', Some ''Echo''), (Some 4, Some TeamB, ''gunner'', Some ''Echo''),
      (Some 5, Some TeamB, ''driver'', Some ''Echo''),
      (Some 6, None, ''recruit'', None), (Some 7, None, ''recruit'', None)] \<and>
   crew_entries TeamA (plain_crew 8 8 8 ''Solo'') = [(Some 8, Some TeamA, ''commander'', Some ''Solo'')]"
proof -
  have hyp: "commander_a finale_view = Some 1 \<and> commander_b finale_view = Some 2 \<and>
      occupied (crews_a finale_view) @ occupied (crews_b finale_view) = [0] \<and>
      distinct [commander (dicts finale_view 0), gunner (dicts finale_view 0),
        driver (dicts finale_view 0)] \<and>
      length (recruits finale_view) = 2"
    by (simp add: finale_view_def plain_crew_def)
  have self: "gunner (plain_crew 8 8 8 ''Solo'') = commander (plain_crew 8 8 8 ''Solo'') \<and>
      driver (plain_crew 8 8 8 ''Solo'') = commander (plain_crew 8 8 8 ''Solo'')"
    by (simp add: plain_crew_def)
  note inst = finalize_participants
    [where v = finale_view and a = 1 and b = 2 and r = 0 and c = "plain_crew 8 8 8 ''Solo''"
       and t = TeamA]
  from inst [THEN conjunct2, THEN conjunct2, THEN mp, OF hyp]
  have counts: "length (get_participants finale_view) = 7"
      "length (filter has_faction (get_participants finale_view)) = 5"
    by simp_all
  from inst [THEN conjunct2, THEN conjunct1, THEN mp, OF self]
  have solo: "crew_entries TeamA (plain_crew 8 8 8 ''Solo'') =
      [(Some 8, Some TeamA, ''commander'', Some ''Solo'')]"
    by (simp add: plain_crew_def)
  have "participants_spec finale_view =
     [(Some 1, Some TeamA, ''commander'', None), (Some 2, Some TeamB, ''commander'', None),
      (Some 3, Some TeamB, ''commander'', Some ''Echo''), (Some 4, Some TeamB, ''gunner'', Some ''Echo''),
      (Some 5, Some TeamB, ''driver'', Some ''Echo''),
      (Some 6, None, ''recruit'', None), (Some 7, None, ''recruit'', None)]"
    by (simp add: participants_spec_def commander_entry_def crew_entries_def finale_view_def
        plain_crew_def)
  with inst [THEN conjunct1] have list: "get_participants finale_view =
     [(Some 1, Some TeamA, ''commander'', None), (Some 2, Some TeamB, ''commander'', None),
      (Some 3, Some TeamB, ''commander'', Some ''Echo''), (Some 4, Some TeamB, ''gunner'', Some ''Echo''),
      (Some 5, Some TeamB, ''driver'', Some ''Echo''),
      (Some 6, None, ''recruit'', None), (Some 7, None, ''recruit'', None)]"
    by simp
  from hyp counts list solo show ?thesis by (intro conjI) simp_all
qed

section \<open>Joining with a stored crew\<close>

lemma member_or_snapshot:
  "member_or guild k (get_member guild (commander_id crew)) = get_member guild (snapshot_id crew k)"
  by (simp add: member_or_def snapshot_id_def split: option.splits)

lemma profile_members_snapshot:
  "profile_members guild crew = map (get_member guild) (snapshot_ids crew)"
  by (simp add: profile_members_def snapshot_ids_def member_or_snapshot)

lemma profile_member_iff:
  "Some u \<in> set (profile_members guild crew) \<longleftrightarrow> u \<in> set (snapshot_ids crew) \<and> u \<in> set guild"
  by (auto simp: profile_members_snapshot get_member_def split: if_splits)

lemma profile_crew_resolved:
  assumes "set (snapshot_ids crew) \<subseteq> set guild"
  shows "profile_crew guild crew = snapshot_crew crew"
proof -
  have "profile_crew guild crew =
      \<lparr>commander = get_member guild (commander_id crew), crew_name = pc_crew_name crew,
       gunner = get_member guild (snapshot_id crew (gunner_id crew)),
       driver = get_member guild (snapshot_id crew (driver_id crew)),
       persistent_crew_id = Some (pc_id crew)\<rparr>"
    unfolding profile_crew_def by (simp only: member_or_snapshot)
  with assms show ?thesis
    by (simp add: snapshot_crew_def get_member_def snapshot_ids_def)
qed

text \<open>
  C3, as amended. If one of the three identities of the stored crew (commander; gunner and
  driver, the commander when unset) is a member of the guild and is registered,
  \<open>join_with_crew\<close> answers that a member is already registered, names such a member, and
  returns the view as it was. If the guild has all three as members, none of them is
  registered and the faction's slot array has the configured length, then either the
  faction has no empty slot, and the answer is "team is full" with the view as it was, or
  exactly one empty slot now refers to a new dict that holds the three identities and the
  id of the stored crew, while the commanders, the recruits, the dicts already there and the
  other faction's slots are as before; the answer is then the success message, provided the
  roster renders.
\<close>

theorem profile_join_atomic:
  "((\<exists>u. u \<in> set (snapshot_ids crew) \<and> u \<in> set guild \<and> is_user_registered v u) \<longrightarrow>
      (\<exists>m. join_with_crew max_crews guild v crew t = (Sends (MemberAlreadyRegistered m), v) \<and>
           m \<in> set (snapshot_ids crew) \<and> m \<in> set guild \<and> is_user_registered v m)) \<and>
   (set (snapshot_ids crew) \<subseteq> set guild \<and>
    \<not> (\<exists>u. u \<in> set (snapshot_ids crew) \<and> is_user_registered v u) \<and>
    length (slot_list t v) = max_crews \<longrightarrow>
      (if list_all (\<lambda>slot. slot \<noteq> None) (slot_list t v)
       then join_with_crew max_crews guild v crew t = (Sends TeamFull, v)
       else (\<exists>k<max_crews. slot_list t v ! k = None \<and>
               snd (join_with_crew max_crews guild v crew t) = store_crew t k (snapshot_crew crew) v \<and>
               fst (join_with_crew max_crews guild v crew t) =
                 (case update_embed (store_crew t k (snapshot_crew crew) v) of
                    None \<Rightarrow> Sends Done | Some e \<Rightarrow> Raises e) \<and>
               slot_list t (store_crew t k (snapshot_crew crew) v) =
                 (slot_list t v)[k := Some (next_ref v)] \<and>
               dicts (store_crew t k (snapshot_crew crew) v) =
                 (dicts v)(next_ref v := snapshot_crew crew) \<and>
               persistent_crew_id (snapshot_crew crew) = Some (pc_id crew) \<and>
               slot_list (other_team t) (store_crew t k (snapshot_crew crew) v) =
                 slot_list (other_team t) v \<and>
               commander_a (store_crew t k (snapshot_crew crew) v) = commander_a v \<and>
               commander_b (store_crew t k (snapshot_crew crew) v) = commander_b v \<and>
               recruits (store_crew t k (snapshot_crew crew) v) = recruits v)))"
proof (intro conjI impI)
  assume "\<exists>u. u \<in> set (snapshot_ids crew) \<and> u \<in> set guild \<and> is_user_registered v u"
  then have "first_registered v (profile_members guild crew) \<noteq> None"
    by (simp add: first_registered_None_iff profile_member_iff)
  then obtain m where m: "first_registered v (profile_members guild crew) = Some m"
    by blast
  then have "join_with_crew max_crews guild v crew t = (Sends (MemberAlreadyRegistered m), v)"
    by (simp add: join_with_crew_cases)
  with first_registered_Some [OF m]
  show "\<exists>m. join_with_crew max_crews guild v crew t = (Sends (MemberAlreadyRegistered m), v) \<and>
           m \<in> set (snapshot_ids crew) \<and> m \<in> set guild \<and> is_user_registered v m"
    by (auto simp: profile_member_iff)
next
  assume h: "set (snapshot_ids crew) \<subseteq> set guild \<and>
    \<not> (\<exists>u. u \<in> set (snapshot_ids crew) \<and> is_user_registered v u) \<and>
    length (slot_list t v) = max_crews"
  then have free: "first_registered v (profile_members guild crew) = None"
    and len: "length (slot_list t v) = max_crews"
    and crew: "profile_crew guild crew = snapshot_crew crew"
    by (simp_all add: first_registered_None_iff profile_member_iff profile_crew_resolved)
  let ?c = "snapshot_crew crew"
  show "if list_all (\<lambda>slot. slot \<noteq> None) (slot_list t v)
       then join_with_crew max_crews guild v crew t = (Sends TeamFull, v)
       else (\<exists>k<max_crews. slot_list t v ! k = None \<and>
               snd (join_with_crew max_crews guild v crew t) = store_crew t k ?c v \<and>
               fst (join_with_crew max_crews guild v crew t) =
                 (case update_embed (store_crew t k ?c v) of
                    None \<Rightarrow> Sends Done | Some e \<Rightarrow> Raises e) \<and>
               slot_list t (store_crew t k ?c v) = (slot_list t v)[k := Some (next_ref v)] \<and>
               dicts (store_crew t k ?c v) = (dicts v)(next_ref v := ?c) \<and>
               persistent_crew_id ?c = Some (pc_id crew) \<and>
               slot_list (other_team t) (store_crew t k ?c v) = slot_list (other_team t) v \<and>
               commander_a (store_crew t k ?c v) = commander_a v \<and>
               commander_b (store_crew t k ?c v) = commander_b v \<and>
               recruits (store_crew t k ?c v) = recruits v)"
  proof (cases "list_all (\<lambda>slot. slot \<noteq> None) (slot_list t v)")
    case True
    then have "first_empty (slot_list t v) 0 max_crews = NoSlot"
      using first_empty_full [of "slot_list t v"] len by simp
    with True free show ?thesis
      by (simp add: join_with_crew_cases)
  next
    case False
    then obtain j where j: "j < length (slot_list t v)" "slot_list t v ! j = None"
      by (auto simp: list_all_length)
    with len have "\<exists>i\<le>j. first_empty (slot_list t v) 0 max_crews = Found i"
      by (intro first_empty_exists) simp_all
    then obtain k where k: "first_empty (slot_list t v) 0 max_crews = Found k"
      by blast
    then have k': "k < max_crews" "slot_list t v ! k = None"
      by (simp_all add: first_empty_Found_iff)
    have run: "join_with_crew max_crews guild v crew t = update_and_send (store_crew t k ?c v)"
      using free k crew by (simp add: join_with_crew_cases)
    have other: "slot_list (other_team t) (store_crew t k ?c v) = slot_list (other_team t) v"
      by (rule slot_list_store_crew) (simp add: other_team_def)
    have pid: "persistent_crew_id ?c = Some (pc_id crew)"
      by (simp add: snapshot_crew_def)
    have "slot_list t v ! k = None \<and>
        snd (join_with_crew max_crews guild v crew t) = store_crew t k ?c v \<and>
        fst (join_with_crew max_crews guild v crew t) =
          (case update_embed (store_crew t k ?c v) of None \<Rightarrow> Sends Done | Some e \<Rightarrow> Raises e) \<and>
        slot_list t (store_crew t k ?c v) = (slot_list t v)[k := Some (next_ref v)] \<and>
        dicts (store_crew t k ?c v) = (dicts v)(next_ref v := ?c) \<and>
        persistent_crew_id ?c = Some (pc_id crew) \<and>
        slot_list (other_team t) (store_crew t k ?c v) = slot_list (other_team t) v \<and>
        commander_a (store_crew t k ?c v) = commander_a v \<and>
        commander_b (store_crew t k ?c v) = commander_b v \<and>
        recruits (store_crew t k ?c v) = recruits v"
      using k' other pid by (simp add: run update_and_send_simps slot_list_store_crew)
    with k'(1) have "\<exists>k<max_crews. slot_list t v ! k = None \<and>
        snd (join_with_crew max_crews guild v crew t) = store_crew t k ?c v \<and>
        fst (join_with_crew max_crews guild v crew t) =
          (case update_embed (store_crew t k ?c v) of None \<Rightarrow> Sends Done | Some e \<Rightarrow> Raises e) \<and>
        slot_list t (store_crew t k ?c v) = (slot_list t v)[k := Some (next_ref v)] \<and>
        dicts (store_crew t k ?c v) = (dicts v)(next_ref v := ?c) \<and>
        persistent_crew_id ?c = Some (pc_id crew) \<and>
        slot_list (other_team t) (store_crew t k ?c v) = slot_list (other_team t) v \<and>
        commander_a (store_crew t k ?c v) = commander_a v \<and>
        commander_b (store_crew t k ?c v) = commander_b v \<and>
        recruits (store_crew t k ?c v) = recruits v"
      by (intro exI [of _ k] conjI) simp_all
    with False show ?thesis by (simp only: if_False)
  qed
qed

text \<open>C3 as stated fails twice. On a full faction no member of the stored crew is
  registered and no slot is allocated. And a registered member whom the guild does not
  resolve (\<open>get_member\<close> gives \<open>None\<close>) is skipped by the check: the gunner 42 is in the
  recruit pool, yet the crew is written, with no gunner, and the handler raises when it
  renders the roster.\<close>

theorem profile_join_counterexample:
  "\<not> is_user_registered full_team_view 41 \<and> \<not> is_user_registered full_team_view 42 \<and>
   snapshot_ids saved_crew = [41, 42, 41] \<and>
   join_with_crew 3 [41, 42] full_team_view saved_crew TeamA = (Sends TeamFull, full_team_view) \<and>
   is_user_registered recruit_view 42 \<and>
   join_with_crew 3 [41] recruit_view saved_crew TeamA =
     (Raises AttributeError,
      store_crew TeamA 0
        \<lparr>commander = Some 41, crew_name = ''Delta'', gunner = None, driver = Some 41,
         persistent_crew_id = Some 40\<rparr> recruit_view) \<and>
   recruits (snd (join_with_crew 3 [41] recruit_view saved_crew TeamA)) = [42] \<and>
   slot_list TeamA (snd (join_with_crew 3 [41] recruit_view saved_crew TeamA)) =
     [Some 0, None, None]"
  by (simp add: eval_defs full_team_view_def recruit_view_def snapshot_ids_def snapshot_id_def)

theorem profile_join_atomic_witness:
  "42 \<in> set (snapshot_ids saved_crew) \<and> 42 \<in> set [41, 42::nat] \<and>
   is_user_registered recruit_view 42 \<and>
   join_with_crew 3 [41, 42] recruit_view saved_crew TeamA =
     (Sends (MemberAlreadyRegistered 42), recruit_view) \<and>
   set (snapshot_ids saved_crew) \<subseteq> set [41, 42] \<and>
   \<not> is_user_registered (posted_view 3) 41 \<and> \<not> is_user_registered (posted_view 3) 42 \<and>
   length (slot_list TeamA (posted_view 3)) = 3 \<and>
   \<not> list_all (\<lambda>slot. slot \<noteq> None) (slot_list TeamA (posted_view 3)) \<and>
   join_with_crew 3 [41, 42] (posted_view 3) saved_crew TeamA =
     (Sends Done, store_crew TeamA 0 (snapshot_crew saved_crew) (posted_view 3)) \<and>
   slot_list TeamA (store_crew TeamA 0 (snapshot_crew saved_crew) (posted_view 3)) =
     [Some 0, None, None] \<and>
   snapshot_crew saved_crew =
     \<lparr>commander = Some 41, crew_name = ''Delta'', gunner = Some 42, driver = Some 41,
      persistent_crew_id = Some 40\<rparr>"
proof -
  let ?j1 = "join_with_crew 3 [41, 42] recruit_view saved_crew TeamA"
  let ?j2 = "join_with_crew 3 [41, 42] (posted_view 3) saved_crew TeamA"
  have ids: "snapshot_ids saved_crew = [41, 42, 41]"
    by (simp add: snapshot_ids_def snapshot_id_def saved_crew_def)
  have reg: "is_user_registered recruit_view 42"
    by (simp add: eval_defs recruit_view_def)
  have ex: "\<exists>u. u \<in> set (snapshot_ids saved_crew) \<and> u \<in> set [41, 42] \<and>
      is_user_registered recruit_view u"
    using ids reg by auto
  note first = profile_join_atomic
    [where guild = "[41, 42]" and crew = saved_crew and v = recruit_view and max_crews = 3
       and t = TeamA, THEN conjunct1, THEN mp, OF ex]
  then obtain m where m: "?j1 = (Sends (MemberAlreadyRegistered m), recruit_view)"
    and m_reg: "m \<in> set (snapshot_ids saved_crew)" "is_user_registered recruit_view m"
    by (elim exE conjE)
  have "\<not> is_user_registered recruit_view 41"
    by (simp add: eval_defs recruit_view_def)
  with m_reg ids have "m = 42" by auto
  with m have a: "?j1 = (Sends (MemberAlreadyRegistered 42), recruit_view)" by simp
  have free: "\<not> is_user_registered (posted_view 3) 41" "\<not> is_user_registered (posted_view 3) 42"
    by (simp_all add: eval_defs)
  have len: "length (slot_list TeamA (posted_view 3)) = 3"
    by (simp add: eval_defs)
  have room: "\<not> list_all (\<lambda>slot. slot \<noteq> None) (slot_list TeamA (posted_view 3))"
    by (simp add: eval_defs)
  have sub: "set (snapshot_ids saved_crew) \<subseteq> set [41, 42]"
    using ids by simp
  have pre: "set (snapshot_ids saved_crew) \<subseteq> set [41, 42] \<and>
      \<not> (\<exists>u. u \<in> set (snapshot_ids saved_crew) \<and> is_user_registered (posted_view 3) u) \<and>
      length (slot_list TeamA (posted_view 3)) = 3"
    using ids free len by auto
  note second = profile_join_atomic
    [where guild = "[41, 42]" and crew = saved_crew and v = "posted_view 3" and max_crews = 3
       and t = TeamA, THEN conjunct2, THEN mp, OF pre]
  with room obtain k where k: "slot_list TeamA (posted_view 3) ! k = None"
    and s: "snd ?j2 = store_crew TeamA k (snapshot_crew saved_crew) (posted_view 3)"
    and f: "fst ?j2 = (case update_embed (store_crew TeamA k (snapshot_crew saved_crew) (posted_view 3)) of
        None \<Rightarrow> Sends Done | Some e \<Rightarrow> Raises e)"
    and l: "slot_list TeamA (store_crew TeamA k (snapshot_crew saved_crew) (posted_view 3)) =
        (slot_list TeamA (posted_view 3))[k := Some (next_ref (posted_view 3))]"
    by (simp only: if_False) (elim exE conjE)
  have direct: "snd ?j2 = store_crew TeamA 0 (snapshot_crew saved_crew) (posted_view 3)"
    by (simp add: eval_defs snapshot_crew_def snapshot_id_def)
  have k0: "k = 0"
  proof (rule ccontr)
    assume "k \<noteq> 0"
    then have "slot_list TeamA (store_crew TeamA k (snapshot_crew saved_crew) (posted_view 3)) ! 0 = None"
      unfolding l by (cases k) (simp_all add: eval_defs)
    moreover have "slot_list TeamA (store_crew TeamA 0 (snapshot_crew saved_crew) (posted_view 3)) ! 0 = Some 0"
      by (simp add: eval_defs)
    ultimately show False using s direct by simp
  qed
  have render: "update_embed (store_crew TeamA 0 (snapshot_crew saved_crew) (posted_view 3)) = None"
    by (simp add: eval_defs snapshot_crew_def snapshot_id_def)
  from s f have b: "?j2 = (Sends Done, store_crew TeamA 0 (snapshot_crew saved_crew) (posted_view 3))"
    unfolding k0 by (simp add: render prod_eq_iff)
  have slots: "slot_list TeamA (store_crew TeamA 0 (snapshot_crew saved_crew) (posted_view 3)) =
      [Some 0, None, None]"
    using l unfolding k0 by (simp add: eval_defs)
  have c: "snapshot_crew saved_crew =
     \<lparr>commander = Some 41, crew_name = ''Delta'', gunner = Some 42, driver = Some 41,
      persistent_crew_id = Some 40\<rparr>"
    by (simp add: snapshot_crew_def snapshot_id_def saved_crew_def)
  have in42: "42 \<in> set (snapshot_ids saved_crew)" "42 \<in> set [41, 42::nat]"
    using ids by simp_all
  from in42 reg a sub free len room b slots c show ?thesis
    by (intro conjI)
qed

section \<open>Recruiting into a crew position\<close>

text \<open>The position buttons do not look at the pool before they write: pressed for a
  selection that is not in the pool (any more), they write the position and then raise.\<close>

lemma assign_after_recruit_left:
  assumes "rsv_crew p = Some r" and "rsv_selected_recruit p = Some x" and "x \<notin> set (recruits v)"
  shows "AssignGunnerButton_callback v p = (Raises ValueError, write_gunner r (Some x) v)"
    and "AssignDriverButton_callback v p = (Raises ValueError, write_driver r (Some x) v)"
  using assms
  by (simp_all add: AssignGunnerButton_callback_def AssignDriverButton_callback_def
      remove_recruit_def write_gunner_def write_driver_def)

text \<open>
  C6 on the code. The commander 21 of the crew in slot 1 (21, 22, 23) opens the recruit view
  and selects the recruit 62; "Assign as Gunner" makes 62 the gunner and takes 62 out of
  the pool. "Assign as Driver" of the same view is then pressed for 62, who is not in the
  pool: the handler does not answer "Recruit not found!" and does not leave the roster
  alone; it writes 62 over the driver 23 and raises \<open>ValueError\<close>.
\<close>

theorem assign_recruit_not_in_pool:
  "RecruitPlayersButton_callback pool_view 21 = (Shows pool_selection, pool_view) \<and>
   RecruitSelect_callback pool_view pool_selection 62 =
     (Shows (pool_selection\<lparr>rsv_selected_recruit := Some 62\<rparr>), pool_view) \<and>
   AssignGunnerButton_callback pool_view (pool_selection\<lparr>rsv_selected_recruit := Some 62\<rparr>) =
     (Sends Done, (write_gunner 1 (Some 62) pool_view)\<lparr>recruits := [61]\<rparr>) \<and>
   62 \<notin> set (recruits ((write_gunner 1 (Some 62) pool_view)\<lparr>recruits := [61]\<rparr>)) \<and>
   dicts ((write_gunner 1 (Some 62) pool_view)\<lparr>recruits := [61]\<rparr>) 1 =
     \<lparr>commander = Some 21, crew_name = ''Bravo'', gunner = Some 62, driver = Some 23,
      persistent_crew_id = None\<rparr> \<and>
   AssignDriverButton_callback ((write_gunner 1 (Some 62) pool_view)\<lparr>recruits := [61]\<rparr>)
       (pool_selection\<lparr>rsv_selected_recruit := Some 62\<rparr>) =
     (Raises ValueError,
      write_driver 1 (Some 62) ((write_gunner 1 (Some 62) pool_view)\<lparr>recruits := [61]\<rparr>)) \<and>
   dicts (write_driver 1 (Some 62) ((write_gunner 1 (Some 62) pool_view)\<lparr>recruits := [61]\<rparr>)) 1 =
     \<lparr>commander = Some 21, crew_name = ''Bravo'', gunner = Some 62, driver = Some 62,
      persistent_crew_id = None\<rparr>"
  by (simp add: RecruitPlayersButton_callback_def is_user_commander_def get_user_crew_def
      RecruitSelect_callback_def AssignGunnerButton_callback_def AssignDriverButton_callback_def
      remove_recruit_def write_gunner_def write_driver_def pool_view_def pool_selection_def
      eval_defs full_team_view_def)

section \<open>Editing a crew position\<close>

lemma edit_select_raises:
  "UpdateGunnerSelect_callback v p values = (Raises AttributeError, v)"
  "UpdateDriverSelect_callback v q values = (Raises AttributeError, v)"
  by (simp_all add: UpdateGunnerSelect_callback_def UpdateDriverSelect_callback_def
      split: option.splits)

text \<open>
  C7 on the code. The commander 11 of the crew in slot 0 (11, 12, 13) opens "Edit My Crew"
  and then "Change Gunner". Selecting the unregistered user 50, selecting the commander 11,
  and clearing the selection each raise \<open>AttributeError\<close>, and the crew stays as it was:
  there is no success for the unregistered user, no "User already registered!", and no
  reset to the commander. The driver select does the same.
\<close>

theorem edit_position_raises:
  "EditCrewButton_callback full_team_view 11 =
     (Shows \<lparr>ecv_crew = 0, ecv_team = TeamA, ecv_slot_index = 0\<rparr>, full_team_view) \<and>
   EditGunnerButton_callback full_team_view \<lparr>ecv_crew = 0, ecv_team = TeamA, ecv_slot_index = 0\<rparr> =
     (Shows \<lparr>egv_parent = \<lparr>ecv_crew = 0, ecv_team = TeamA, ecv_slot_index = 0\<rparr>\<rparr>, full_team_view) \<and>
   \<not> is_user_registered full_team_view 50 \<and>
   UpdateGunnerSelect_callback full_team_view
       \<lparr>egv_parent = \<lparr>ecv_crew = 0, ecv_team = TeamA, ecv_slot_index = 0\<rparr>\<rparr> (Some 50) =
     (Raises AttributeError, full_team_view) \<and>
   UpdateGunnerSelect_callback full_team_view
       \<lparr>egv_parent = \<lparr>ecv_crew = 0, ecv_team = TeamA, ecv_slot_index = 0\<rparr>\<rparr> (Some 11) =
     (Raises AttributeError, full_team_view) \<and>
   UpdateGunnerSelect_callback full_team_view
       \<lparr>egv_parent = \<lparr>ecv_crew = 0, ecv_team = TeamA, ecv_slot_index = 0\<rparr>\<rparr> None =
     (Raises AttributeError, full_team_view) \<and>
   UpdateDriverSelect_callback full_team_view
       \<lparr>edv_parent = \<lparr>ecv_crew = 0, ecv_team = TeamA, ecv_slot_index = 0\<rparr>\<rparr> (Some 50) =
     (Raises AttributeError, full_team_view) \<and>
   UpdateDriverSelect_callback full_team_view
       \<lparr>edv_parent = \<lparr>ecv_crew = 0, ecv_team = TeamA, ecv_slot_index = 0\<rparr>\<rparr> None =
     (Raises AttributeError, full_team_view) \<and>
   gunner (dicts full_team_view 0) = Some 12 \<and> driver (dicts full_team_view 0) = Some 13"
  by (simp add: EditCrewButton_callback_def EditGunnerButton_callback_def get_user_crew_def
      UpdateGunnerSelect_callback_def UpdateDriverSelect_callback_def eval_defs full_team_view_def)

section \<open>Registration in more than one place\<close>

text \<open>
  C1 on the code. On a new event, user 1 presses "Join Allies Crew" and selects user 2 as
  gunner; user 2, not registered yet, presses "Recruit Me"; user 1 goes on, selects user 3
  as driver and submits the crew name. Every step is accepted, and user 2 ends up both in
  the recruit pool and as the gunner of the crew in slot 0.
\<close>

theorem registered_twice:
  "JoinCrewButton_callback TeamA (posted_view 3) 1 =
     (Shows \<lparr>csv_team = TeamA, csv_commander = 1, csv_gunner = None\<rparr>, posted_view 3) \<and>
   GunnerSelect_callback (posted_view 3) \<lparr>csv_team = TeamA, csv_commander = 1, csv_gunner = None\<rparr> 2 =
     (Shows \<lparr>csv_team = TeamA, csv_commander = 1, csv_gunner = Some 2\<rparr>, posted_view 3) \<and>
   RecruitMeButton_callback (posted_view 3) 2 = (Sends Done, (posted_view 3)\<lparr>recruits := [2]\<rparr>) \<and>
   DriverSelect_callback ((posted_view 3)\<lparr>recruits := [2]\<rparr>)
       \<lparr>csv_team = TeamA, csv_commander = 1, csv_gunner = Some 2\<rparr> 3 =
     (Shows (crew_modal TeamA 1 2 3), (posted_view 3)\<lparr>recruits := [2]\<rparr>) \<and>
   CrewNameModal_on_submit 3 ((posted_view 3)\<lparr>recruits := [2]\<rparr>) (crew_modal TeamA 1 2 3) ''Alpha'' =
     (Sends Done,
      store_crew TeamA 0 (plain_crew 1 2 3 ''Alpha'') ((posted_view 3)\<lparr>recruits := [2]\<rparr>)) \<and>
   recruits (store_crew TeamA 0 (plain_crew 1 2 3 ''Alpha'') ((posted_view 3)\<lparr>recruits := [2]\<rparr>)) = [2] \<and>
   crews_a (store_crew TeamA 0 (plain_crew 1 2 3 ''Alpha'') ((posted_view 3)\<lparr>recruits := [2]\<rparr>)) =
     [Some 0, None, None] \<and>
   gunner (dicts (store_crew TeamA 0 (plain_crew 1 2 3 ''Alpha'') ((posted_view 3)\<lparr>recruits := [2]\<rparr>)) 0) =
     Some 2 \<and>
   places_held (store_crew TeamA 0 (plain_crew 1 2 3 ''Alpha'') ((posted_view 3)\<lparr>recruits := [2]\<rparr>)) 2 = 2"
  by (simp add: JoinCrewButton_callback_def GunnerSelect_callback_def RecruitMeButton_callback_def
      DriverSelect_callback_def places_held_def eval_defs)

section \<open>After the end of the event\<close>





lemma build_embed_disabled:
  "build_embed (v\<lparr>children_disabled := b\<rparr>) = build_embed v"
  by (simp add: build_embed_def)





















end
